theory Spec2Isabelle
  imports Complex_Main
begin

section \<open>The variance bar chart visual\<close>

text \<open>
  A shallow embedding of the chart component (class \<open>Visual\<close>: \<open>update\<close>, \<open>clearChart\<close>,
  \<open>renderChart\<close>, \<open>renderVarianceBubble\<close>) and of the settings model it reads.

  A JavaScript number is modelled by the rational number it denotes: every finite double
  is one; the infinities and NaN are outside the model. Comparisons and \<open>Math.abs\<close>,
  \<open>Math.min\<close>, \<open>Math.max\<close> and \<open>Math.round\<close> are exact on doubles and are read over
  \<open>rat\<close> as they stand. The arithmetic that computes the variance percentage and the
  vertical domain rounds the result of every operation to the nearest double
  (\<open>toDouble\<close> below), as IEEE 754 arithmetic does. The coordinates of the drawn
  elements are written with exact arithmetic: the properties below are about which
  elements are drawn, their fill and their text, not about positions. The drawing
  surface is the list of elements below the chart group, in document order.
\<close>

subsection \<open>Host data\<close>

text \<open>
  A category value is a string, a number, a boolean or a date (the host's
  \<open>PrimitiveValue\<close>); \<open>None\<close> in a column is JavaScript's \<open>null\<close>. A measure
  column holds numbers and \<open>null\<close>. An optional array or object that is absent is
  \<open>None\<close>. \<open>metadataObjects\<close> stands for the persisted property values that the
  host's settings service reads from a data view.
\<close>

datatype PrimitiveValue =
    PString string
  | PNumber rat
  | PBoolean bool
  | PDate int

record DataViewCategoryColumn =
  categoryValues :: "PrimitiveValue option list"

record DataViewValueColumn =
  measureValues :: "rat option list"

record DataViewCategorical =
  categories :: "DataViewCategoryColumn list option"
  valueColumns :: "DataViewValueColumn list option"

record DataView =
  categorical :: "DataViewCategorical option"
  metadataObjects :: "(string \<times> PrimitiveValue) list"

record Viewport =
  width :: rat
  height :: rat

record VisualUpdateOptions =
  dataViews :: "DataView list option"
  viewport :: Viewport

subsection \<open>Settings model (settings.ts)\<close>

text \<open>
  Each slice is modelled by its current value. A colour is the string under
  \<open>value.value\<close>, absent when the host delivers none; a font size may be absent too
  (the source guards both, with \<open>||\<close> and \<open>??\<close>).
\<close>

record BarSettingsCard =
  barColor :: "string option"
  selectedBarColor :: "string option"
  showDataLabels :: bool
  labelFontSize :: "rat option"

record VarianceBubbleCard =
  showBubble :: bool
  bubbleColor :: "string option"
  negativeBubbleColor :: "string option"
  fontSize :: "rat option"
  firstBarIndex :: rat
  secondBarIndex :: rat

record VisualFormattingSettingsModel =
  barSettingsCard :: BarSettingsCard
  varianceBubbleCard :: VarianceBubbleCard

definition defaultBarSettingsCard :: BarSettingsCard where
  "defaultBarSettingsCard =
     \<lparr>barColor = Some ''#4472C4'', selectedBarColor = Some ''#ED7D31'',
      showDataLabels = True, labelFontSize = Some 11\<rparr>"

definition defaultVarianceBubbleCard :: VarianceBubbleCard where
  "defaultVarianceBubbleCard =
     \<lparr>showBubble = True, bubbleColor = Some ''#70AD47'',
      negativeBubbleColor = Some ''#FF0000'', fontSize = Some 12,
      firstBarIndex = 1, secondBarIndex = 2\<rparr>"

definition defaultSettings :: VisualFormattingSettingsModel where
  "defaultSettings =
     \<lparr>barSettingsCard = defaultBarSettingsCard,
      varianceBubbleCard = defaultVarianceBubbleCard\<rparr>"

subsection \<open>The runtime: library functions the source calls\<close>

text \<open>
  The formatting of numbers and dates, the d3 scales and the host's settings service are
  not code of this repository; they are parameters of the model.
  \<^item> \<open>numberToString\<close>: \<open>Number.prototype.toString\<close>, also used by template literals;
  \<^item> \<open>dateToString\<close>: \<open>Date.prototype.toString\<close>;
  \<^item> \<open>formatSI\<close>: \<open>d3.format(".2s")\<close>;
  \<^item> \<open>scaleBand dom w\<close>: the band scale with domain \<open>dom\<close>, range \<open>[0, w]\<close> and padding
    0.25 (\<open>None\<close> for a string outside the domain); \<open>bandwidth dom w\<close> its band width;
  \<open>scaleLinearNice lo hi h\<close>: the linear scale with domain \<open>[lo, hi]\<close>, made nice, and
    range \<open>[h, 0]\<close>;
  \<^item> \<open>populateFormattingSettingsModel\<close>: the host service that reads the settings.
\<close>

record runtime =
  numberToString :: "rat \<Rightarrow> string"
  dateToString :: "int \<Rightarrow> string"
  formatSI :: "rat \<Rightarrow> string"
  scaleBand :: "string list \<Rightarrow> rat \<Rightarrow> string \<Rightarrow> rat option"
  bandwidth :: "string list \<Rightarrow> rat \<Rightarrow> rat"
  scaleLinearNice :: "rat \<Rightarrow> rat \<Rightarrow> rat \<Rightarrow> rat \<Rightarrow> rat"
  populateFormattingSettingsModel :: "DataView \<Rightarrow> VisualFormattingSettingsModel"

subsection \<open>JavaScript built-ins\<close>

text \<open>Truthiness of a category value that is not \<open>null\<close>.\<close>

fun truthy :: "PrimitiveValue \<Rightarrow> bool" where
  "truthy (PString s) = (s \<noteq> [])"
| "truthy (PNumber n) = (n \<noteq> 0)"
| "truthy (PBoolean b) = b"
| "truthy (PDate t) = True"

fun toString :: "runtime \<Rightarrow> PrimitiveValue \<Rightarrow> string" where
  "toString rt (PString s) = s"
| "toString rt (PNumber n) = numberToString rt n"
| "toString rt (PBoolean b) = (if b then ''true'' else ''false'')"
| "toString rt (PDate t) = dateToString rt t"

text \<open>
  IEEE 754 double precision, rounding to nearest with ties to even: \<open>toDouble x\<close> is the
  double nearest to the real number \<open>x\<close>. The magnitude is scaled by powers of two into
  \<open>[2^52, 2^53)\<close> (for a subnormal result the scaling stops at the exponent \<open>-1074\<close>),
  rounded to an integer, and scaled back. Subtraction, division and multiplication of
  doubles are the exact operation followed by this rounding; a decimal literal of the
  source, such as \<open>1.15\<close>, is the rounding of its value.
\<close>

fun normalise :: "nat \<Rightarrow> rat \<Rightarrow> int \<Rightarrow> rat \<times> int" where
  "normalise 0 m e = (m, e)"
| "normalise (Suc k) m e =
     (if m < 2 ^ 52 \<and> - 1074 < e then normalise k (m * 2) (e - 1)
      else if 2 ^ 53 \<le> m then normalise k (m / 2) (e + 1)
      else (m, e))"

definition roundHalfEven :: "rat \<Rightarrow> int" where
  "roundHalfEven m =
     (let f = \<lfloor>m\<rfloor>; r = m - of_int f
      in if r < 1 / 2 then f else if 1 / 2 < r then f + 1 else if even f then f else f + 1)"

definition toDouble :: "rat \<Rightarrow> rat" where
  "toDouble x =
     (if x = 0 then 0
      else case normalise 2200 \<bar>x\<bar> 0 of
             (m, e) \<Rightarrow> sgn x * of_int (roundHalfEven m)
                         * (if 0 \<le> e then 2 ^ nat e else 1 / 2 ^ nat (- e)))"

definition dsub :: "rat \<Rightarrow> rat \<Rightarrow> rat" where
  "dsub x y = toDouble (x - y)"

definition ddiv :: "rat \<Rightarrow> rat \<Rightarrow> rat" where
  "ddiv x y = toDouble (x / y)"

definition dmul :: "rat \<Rightarrow> rat \<Rightarrow> rat" where
  "dmul x y = toDouble (x * y)"

text \<open>\<open>Math.round\<close>: the nearest integer, a tie going up.\<close>

definition Math_round :: "rat \<Rightarrow> int" where
  "Math_round x = \<lfloor>x + 1 / 2\<rfloor>"

text \<open>An array read \<open>xs[i]\<close>: \<open>None\<close> is \<open>undefined\<close>, for an index outside the array.\<close>

definition at_index :: "'a list \<Rightarrow> int \<Rightarrow> 'a option" where
  "at_index xs i = (if 0 \<le> i \<and> i < int (length xs) then Some (xs ! nat i) else None)"

text \<open>\<open>a || d\<close> on an optional string: the default for an absent or empty string.\<close>

definition or_default :: "string option \<Rightarrow> string \<Rightarrow> string" where
  "or_default a d = (case a of None \<Rightarrow> d | Some s \<Rightarrow> if s = [] then d else s)"

text \<open>\<open>a ?? d\<close>.\<close>

definition nullish :: "'a option \<Rightarrow> 'a \<Rightarrow> 'a" where
  "nullish a d = (case a of None \<Rightarrow> d | Some x \<Rightarrow> x)"

text \<open>Decimal digits of a natural number.\<close>

definition digit :: "nat \<Rightarrow> char" where
  "digit d = ''0123456789'' ! d"

fun decimal :: "nat \<Rightarrow> string" where
  "decimal n = (if n < 10 then [digit n] else decimal (n div 10) @ [digit (n mod 10)])"

declare decimal.simps [simp del]

text \<open>
  \<open>Number.prototype.toFixed(f)\<close> as ECMAScript defines it on a finite number: the sign is
  split off, a magnitude from \<open>10^21\<close> on is printed by \<open>toString\<close>, and otherwise \<open>n\<close> is
  the integer with \<open>n / 10^f\<close> nearest to the magnitude (the larger one at a tie), printed
  with at least \<open>f + 1\<close> digits and a point before the last \<open>f\<close>.
\<close>

definition toFixed :: "runtime \<Rightarrow> nat \<Rightarrow> rat \<Rightarrow> string" where
  "toFixed rt f x0 =
     (let s = (if x0 < 0 then ''-'' else '''');
          x = (if x0 < 0 then - x0 else x0);
          m = (if x \<ge> 10 ^ 21 then numberToString rt x
               else let n = nat \<lfloor>x * 10 ^ f + 1 / 2\<rfloor>;
                        m0 = decimal n
                    in if f \<noteq> 0
                       then let k = length m0;
                                m1 = (if k \<le> f then replicate (f + 1 - k) CHR ''0'' @ m0 else m0);
                                k1 = (if k \<le> f then f + 1 else k)
                            in take (k1 - f) m1 @ ''.'' @ drop (k1 - f) m1
                       else m0)
      in s @ m)"

text \<open>
  \<open>d3.min\<close> and \<open>d3.max\<close> over the values of an array: the running extremum starts
  undefined and is replaced by each value that beats it.
\<close>

definition d3_min :: "rat list \<Rightarrow> rat option" where
  "d3_min xs = fold (\<lambda>v m. case m of None \<Rightarrow> Some v
                              | Some m' \<Rightarrow> if m' > v then Some v else Some m') xs None"

definition d3_max :: "rat list \<Rightarrow> rat option" where
  "d3_max xs = fold (\<lambda>v m. case m of None \<Rightarrow> Some v
                              | Some m' \<Rightarrow> if m' < v then Some v else Some m') xs None"

subsection \<open>Drawn elements\<close>

text \<open>
  The children of the chart group. An axis group is filled in by the library from a
  scale; the x axis carries its vertical translation. A bar is a \<open>rect.bar\<close> with its
  \<open>title\<close> child; a bar label is a \<open>text.bar-label\<close>; the bubble group holds two
  connector lines, the circle and the label.
\<close>

datatype Shape =
    Connector (lineX1: rat) (lineY1: rat) (lineX2: rat) (lineY2: rat) (lineStroke: string)
  | BubbleCircle (circleCx: rat) (circleCy: rat) (circleR: rat) (circleFill: string)
  | VarianceLabel (textX: rat) (textY: rat) (textSize: rat) (textContent: string)

datatype Element =
    XAxis rat
  | YAxis
  | Bar (barX: rat) (barWidth: rat) (barY: rat) (barHeight: rat) (fill: string) (title: string)
  | BarLabel rat rat rat string
  | BubbleGroup "Shape list"

fun shapeClass :: "Shape \<Rightarrow> string" where
  "shapeClass (Connector a b c d e) = ''variance-connector''"
| "shapeClass (BubbleCircle a b c d) = ''variance-bubble''"
| "shapeClass (VarianceLabel a b c d) = ''variance-label''"

fun elementClass :: "Element \<Rightarrow> string" where
  "elementClass (XAxis t) = ''x-axis''"
| "elementClass YAxis = ''y-axis''"
| "elementClass (Bar a b c d e f) = ''bar''"
| "elementClass (BarLabel a b c d) = ''bar-label''"
| "elementClass (BubbleGroup ss) = ''variance-bubble-group''"

text \<open>
  \<open>selection.selectAll("." + cls)\<close> counts the descendants of that class. The class of an
  axis group's own children (\<open>domain\<close>, \<open>tick\<close>) is none the source selects.
\<close>

fun matching :: "string \<Rightarrow> Element \<Rightarrow> nat" where
  "matching cls (BubbleGroup ss) =
     (if cls = ''variance-bubble-group'' then 1 else 0) + length (filter (\<lambda>s. shapeClass s = cls) ss)"
| "matching cls e = (if elementClass e = cls then 1 else 0)"

definition selectAllCount :: "string \<Rightarrow> Element list \<Rightarrow> nat" where
  "selectAllCount cls es = sum_list (map (matching cls) es)"

text \<open>
  \<open>selectAll(sel).data(ds).enter()\<close>: the data are joined by position to the elements
  already selected, and the entering ones are those beyond them.
\<close>

definition enter :: "string \<Rightarrow> Element list \<Rightarrow> 'a list \<Rightarrow> 'a list" where
  "enter cls es ds = drop (selectAllCount cls es) ds"

subsection \<open>The component\<close>

record BarDataPoint =
  category :: string
  val :: rat
  index :: nat

record Visual =
  svgWidth :: "rat option"
  svgHeight :: "rat option"
  chartTransform :: "(rat \<times> rat) option"
  chartGroup :: "Element list"
  formattingSettings :: "VisualFormattingSettingsModel option"

text \<open>
  \<open>TypeError\<close> is the exception of reading a property of \<open>undefined\<close>.
  \<open>UndefinedMeasure\<close> is no exception of the source: it marks an input the numeric model
  has no value for, a measure column shorter than the category column, where the source
  reads \<open>undefined\<close> into a data point's value and goes on.
\<close>

datatype failure = TypeError | UndefinedMeasure

definition marginTop :: rat where "marginTop = 40"
definition marginRight :: rat where "marginRight = 30"
definition marginBottom :: rat where "marginBottom = 60"
definition marginLeft :: rat where "marginLeft = 60"

text \<open>The constructor: an empty chart group below a fresh \<open>svg\<close>.\<close>

definition constructor :: Visual where
  "constructor =
     \<lparr>svgWidth = None, svgHeight = None, chartTransform = None, chartGroup = [],
      formattingSettings = None\<rparr>"

definition clearChart :: "Visual \<Rightarrow> Visual" where
  "clearChart this = this\<lparr>chartGroup := []\<rparr>"

text \<open>The first element of an optional array: \<open>a && a[0]\<close>.\<close>

definition first_of :: "'a list option \<Rightarrow> 'a option" where
  "first_of a = (case a of None \<Rightarrow> None | Some [] \<Rightarrow> None | Some (x # xs) \<Rightarrow> Some x)"

text \<open>
  The callback of \<open>categories.values.map\<close> in \<open>update\<close>, at row \<open>i\<close>. The test
  \<open>cat ? ... : ""\<close> is one of truthiness: \<open>null\<close> and every falsy value take the second
  branch.
\<close>

definition dataPoint :: "runtime \<Rightarrow> rat option list \<Rightarrow> PrimitiveValue option \<Rightarrow> nat \<Rightarrow> failure + BarDataPoint" where
  "dataPoint rt measureCol cat i =
     (let c = (case cat of None \<Rightarrow> [] | Some v \<Rightarrow> if truthy v then toString rt v else [])
      in case at_index measureCol (int i) of
           None \<Rightarrow> Inl UndefinedMeasure
         | Some None \<Rightarrow> Inr \<lparr>category = c, val = 0, index = i\<rparr>
         | Some (Some v) \<Rightarrow> Inr \<lparr>category = c, val = v, index = i\<rparr>)"

fun mapRows :: "runtime \<Rightarrow> rat option list \<Rightarrow> PrimitiveValue option list \<Rightarrow> nat \<Rightarrow> failure + BarDataPoint list" where
  "mapRows rt measureCol [] i = Inr []"
| "mapRows rt measureCol (cat # cats) i =
     (case dataPoint rt measureCol cat i of
        Inl e \<Rightarrow> Inl e
      | Inr d \<Rightarrow> (case mapRows rt measureCol cats (Suc i) of
                   Inl e \<Rightarrow> Inl e
                 | Inr ds \<Rightarrow> Inr (d # ds)))"

text \<open>The comparison indices of \<open>renderChart\<close>.\<close>

definition rawIndex :: "rat \<Rightarrow> int" where
  "rawIndex setting = Math_round setting - 1"

definition selectedIndex :: "nat \<Rightarrow> rat \<Rightarrow> int" where
  "selectedIndex n setting = max 0 (min (int n - 1) (rawIndex setting))"

text \<open>
  The domain handed to the vertical scale. The factor is the double of the literal
  \<open>1.15\<close>, the product a product of doubles.
\<close>

definition yMin :: "BarDataPoint list \<Rightarrow> rat" where
  "yMin dataPoints =
     (let minValue = nullish (d3_min (map val dataPoints)) 0
      in if minValue < 0 then dmul minValue (toDouble (115 / 100)) else 0)"

definition yMax :: "BarDataPoint list \<Rightarrow> rat" where
  "yMax dataPoints =
     (let maxValue = nullish (d3_max (map val dataPoints)) 1
      in if maxValue > 0 then dmul maxValue (toDouble (115 / 100)) else 1)"

text \<open>The attribute callbacks of a bar and of a bar label.\<close>

definition barFill :: "int \<Rightarrow> int \<Rightarrow> bool \<Rightarrow> string \<Rightarrow> string \<Rightarrow> BarDataPoint \<Rightarrow> string" where
  "barFill selectedFirst selectedSecond shown selectedColor defaultBarColor d =
     (if (int (index d) = selectedFirst \<or> int (index d) = selectedSecond) \<and> shown
      then selectedColor else defaultBarColor)"

definition barOf :: "runtime \<Rightarrow> (string \<Rightarrow> rat option) \<Rightarrow> rat \<Rightarrow> (rat \<Rightarrow> rat) \<Rightarrow> int \<Rightarrow> int \<Rightarrow> bool
    \<Rightarrow> string \<Rightarrow> string \<Rightarrow> BarDataPoint \<Rightarrow> Element" where
  "barOf rt xScale bw yScale selectedFirst selectedSecond shown selectedColor defaultBarColor d =
     Bar (nullish (xScale (category d)) 0)
         bw
         (if val d \<ge> 0 then yScale (val d) else yScale 0)
         \<bar>yScale (val d) - yScale 0\<bar>
         (barFill selectedFirst selectedSecond shown selectedColor defaultBarColor d)
         (category d @ '': '' @ numberToString rt (val d))"

definition barLabelOf :: "runtime \<Rightarrow> (string \<Rightarrow> rat option) \<Rightarrow> rat \<Rightarrow> (rat \<Rightarrow> rat) \<Rightarrow> rat
    \<Rightarrow> BarDataPoint \<Rightarrow> Element" where
  "barLabelOf rt xScale bw yScale labelSize d =
     BarLabel (nullish (xScale (category d)) 0 + bw / 2)
              (if val d \<ge> 0 then yScale (val d) - 4 else yScale (val d) + labelSize + 4)
              labelSize
              (formatSI rt (val d))"

text \<open>
  The variance of \<open>renderVarianceBubble\<close>, each of its three operations rounding to a
  double, and its label.
\<close>

definition variancePct :: "rat \<Rightarrow> rat \<Rightarrow> rat" where
  "variancePct firstValue secondValue =
     dmul (ddiv (dsub secondValue firstValue) \<bar>firstValue\<bar>) 100"

definition varianceLabel :: "runtime \<Rightarrow> rat \<Rightarrow> string" where
  "varianceLabel rt pct = (if pct \<ge> 0 then ''+'' else '''') @ toFixed rt 1 pct @ ''%''"

text \<open>
  \<open>renderVarianceBubble\<close> appends the bubble group to the chart group, or returns early
  and leaves it as it is.
\<close>

definition renderVarianceBubble :: "runtime \<Rightarrow> BarDataPoint list \<Rightarrow> int \<Rightarrow> int
    \<Rightarrow> (string \<Rightarrow> rat option) \<Rightarrow> rat \<Rightarrow> (rat \<Rightarrow> rat) \<Rightarrow> VarianceBubbleCard
    \<Rightarrow> Element list \<Rightarrow> Element list" where
  "renderVarianceBubble rt dataPoints firstIdx secondIdx xScale bw yScale bubbleSettings chart =
     (case (at_index dataPoints firstIdx, at_index dataPoints secondIdx) of
        (Some firstBar, Some secondBar) \<Rightarrow>
          if val firstBar = 0 then chart
          else
            let pct = variancePct (val firstBar) (val secondBar);
                isPositive = (pct \<ge> 0);
                positiveColor = or_default (bubbleColor bubbleSettings) ''#70AD47'';
                negativeColor = or_default (negativeBubbleColor bubbleSettings) ''#FF0000'';
                color = (if isPositive then positiveColor else negativeColor);
                fsize = nullish (fontSize bubbleSettings) 12;
                px1 = nullish (xScale (category firstBar)) 0 + bw / 2;
                px2 = nullish (xScale (category secondBar)) 0 + bw / 2;
                bubbleCx = (px1 + px2) / 2;
                topY1 = (if val firstBar \<ge> 0 then yScale (val firstBar) else yScale 0);
                topY2 = (if val secondBar \<ge> 0 then yScale (val secondBar) else yScale 0);
                bubbleCy = min topY1 topY2 - 30;
                bubbleRadius = max 22 (fsize * (18 / 10));
                lineY = bubbleCy + bubbleRadius;
                connectorY1 = min topY1 lineY;
                connectorY2 = min topY2 lineY
            in chart @
               [BubbleGroup
                  [Connector bubbleCx lineY px1 connectorY1 color,
                   Connector bubbleCx lineY px2 connectorY2 color,
                   BubbleCircle bubbleCx bubbleCy bubbleRadius color,
                   VarianceLabel bubbleCx (bubbleCy + fsize * (35 / 100)) fsize (varianceLabel rt pct)]]
      | _ \<Rightarrow> chart)"

definition renderChart :: "runtime \<Rightarrow> VisualUpdateOptions \<Rightarrow> BarDataPoint list \<Rightarrow> Visual
    \<Rightarrow> failure + Visual" where
  "renderChart rt options dataPoints this =
     (let w = width (viewport options);
          h = height (viewport options);
          innerWidth = w - marginLeft - marginRight;
          innerHeight = h - marginTop - marginBottom
      in if innerWidth \<le> 0 \<or> innerHeight \<le> 0 then Inr (clearChart this)
         else
           let this1 = this\<lparr>svgWidth := Some w, svgHeight := Some h\<rparr>;
               this2 = this1\<lparr>chartTransform := Some (marginLeft, marginTop)\<rparr>;
               this3 = this2\<lparr>chartGroup := []\<rparr>
           in case formattingSettings this3 of
                None \<Rightarrow> Inl TypeError
              | Some settings \<Rightarrow>
                  let barSettings = barSettingsCard settings;
                      bubbleSettings = varianceBubbleCard settings;
                      selectedFirst = selectedIndex (length dataPoints) (firstBarIndex bubbleSettings);
                      selectedSecond = selectedIndex (length dataPoints) (secondBarIndex bubbleSettings);
                      dom = map category dataPoints;
                      xScale = scaleBand rt dom innerWidth;
                      bw = bandwidth rt dom innerWidth;
                      yScale = scaleLinearNice rt (yMin dataPoints) (yMax dataPoints) innerHeight;
                      chart1 = chartGroup this3 @ [XAxis (yScale 0)];
                      chart2 = chart1 @ [YAxis];
                      defaultBarColor = or_default (barColor barSettings) ''#4472C4'';
                      selectedColor = or_default (selectedBarColor barSettings) ''#ED7D31'';
                      chart3 = chart2 @
                        map (barOf rt xScale bw yScale selectedFirst selectedSecond
                               (showBubble bubbleSettings) selectedColor defaultBarColor)
                            (enter ''bar'' chart2 dataPoints);
                      chart4 =
                        (if showDataLabels barSettings
                         then chart3 @
                              map (barLabelOf rt xScale bw yScale (nullish (labelFontSize barSettings) 11))
                                  (enter ''bar-label'' chart3 dataPoints)
                         else chart3);
                      chart5 =
                        (if showBubble bubbleSettings \<and> selectedFirst \<noteq> selectedSecond
                         then renderVarianceBubble rt dataPoints selectedFirst selectedSecond
                                xScale bw yScale bubbleSettings chart4
                         else chart4)
                  in Inr (this3\<lparr>chartGroup := chart5\<rparr>))"

definition update :: "runtime \<Rightarrow> VisualUpdateOptions \<Rightarrow> Visual \<Rightarrow> failure + Visual" where
  "update rt options this =
     (case first_of (dataViews options) of
        None \<Rightarrow> Inr (clearChart this)
      | Some dataView \<Rightarrow>
          (case categorical dataView of
             None \<Rightarrow> Inr (clearChart this)
           | Some cat \<Rightarrow>
               let this1 = this\<lparr>formattingSettings := Some (populateFormattingSettingsModel rt dataView)\<rparr>
               in (case (first_of (categories cat), first_of (valueColumns cat)) of
                     (Some cats, Some vals) \<Rightarrow>
                       (case mapRows rt (measureValues vals) (categoryValues cats) 0 of
                          Inl e \<Rightarrow> Inl e
                        | Inr dataPoints \<Rightarrow> renderChart rt options dataPoints this1)
                   | _ \<Rightarrow> Inr (clearChart this1))))"

text \<open>
  The children \<open>renderChart\<close> leaves below the chart group after a complete render,
  written as a function of the current inputs alone (lemma \<open>renderChart_eq\<close> below
  shows that this is what \<open>renderChart\<close> computes).
\<close>

definition drawn :: "runtime \<Rightarrow> VisualUpdateOptions \<Rightarrow> VisualFormattingSettingsModel
    \<Rightarrow> BarDataPoint list \<Rightarrow> Element list" where
  "drawn rt options settings dataPoints =
     (let innerWidth = width (viewport options) - marginLeft - marginRight;
          innerHeight = height (viewport options) - marginTop - marginBottom;
          barSettings = barSettingsCard settings;
          bubbleSettings = varianceBubbleCard settings;
          selectedFirst = selectedIndex (length dataPoints) (firstBarIndex bubbleSettings);
          selectedSecond = selectedIndex (length dataPoints) (secondBarIndex bubbleSettings);
          dom = map category dataPoints;
          xScale = scaleBand rt dom innerWidth;
          bw = bandwidth rt dom innerWidth;
          yScale = scaleLinearNice rt (yMin dataPoints) (yMax dataPoints) innerHeight
      in [XAxis (yScale 0), YAxis]
         @ map (barOf rt xScale bw yScale selectedFirst selectedSecond (showBubble bubbleSettings)
                  (or_default (selectedBarColor barSettings) ''#ED7D31'')
                  (or_default (barColor barSettings) ''#4472C4'')) dataPoints
         @ (if showDataLabels barSettings
            then map (barLabelOf rt xScale bw yScale (nullish (labelFontSize barSettings) 11)) dataPoints
            else [])
         @ (if showBubble bubbleSettings \<and> selectedFirst \<noteq> selectedSecond
            then renderVarianceBubble rt dataPoints selectedFirst selectedSecond
                   xScale bw yScale bubbleSettings []
            else []))"

subsection \<open>Sample inputs\<close>

text \<open>
  Concrete inputs on which the theorems below are instantiated: a data point, a runtime
  and the update options for one category and one measure column in a viewport of 500
  by 400. In the runtime a number of magnitude below \<open>10^21\<close> prints as the decimal
  digits of its integer part, a larger one in exponent notation with the digits of its
  integer part up to the last non-zero one; this is what \<open>Number.prototype.toString\<close>
  prints for an integer of magnitude below \<open>2^53\<close> and for \<open>10^21\<close>, the numbers
  printed below. Every category sits at 0 on a band as wide as the chart, the vertical
  scale is \<open>h - v\<close>, and the settings are the defaults of settings.ts.
\<close>

definition samplePoint :: "string \<Rightarrow> rat \<Rightarrow> nat \<Rightarrow> BarDataPoint" where
  "samplePoint c v i = \<lparr>category = c, val = v, index = i\<rparr>"

definition exponentForm :: "nat \<Rightarrow> string" where
  "exponentForm n =
     (case rev (dropWhile (\<lambda>c. c = CHR ''0'') (rev (decimal n))) of
        [] \<Rightarrow> []
      | c # cs \<Rightarrow> c # (if cs = [] then [] else CHR ''.'' # cs) @ ''e+''
                   @ decimal (length (decimal n) - 1))"

definition sampleRuntime :: runtime where
  "sampleRuntime =
     \<lparr>numberToString = (\<lambda>q. (if q < 0 then ''-'' else '''')
                          @ (if \<bar>q\<bar> < 10 ^ 21 then decimal (nat \<lfloor>\<bar>q\<bar>\<rfloor>)
                             else exponentForm (nat \<lfloor>\<bar>q\<bar>\<rfloor>))),
      dateToString = (\<lambda>t. decimal (nat t)),
      formatSI = (\<lambda>q. (if q < 0 then ''-'' else '''') @ decimal (nat \<lfloor>\<bar>q\<bar>\<rfloor>)),
      scaleBand = (\<lambda>dom w c. if c \<in> set dom then Some 0 else None),
      bandwidth = (\<lambda>dom w. w),
      scaleLinearNice = (\<lambda>lo hi h v. h - v),
      populateFormattingSettingsModel = (\<lambda>dv. defaultSettings)\<rparr>"

definition sampleOptions :: "PrimitiveValue option list \<Rightarrow> rat option list \<Rightarrow> VisualUpdateOptions" where
  "sampleOptions cats ms =
     \<lparr>dataViews = Some [\<lparr>categorical = Some \<lparr>categories = Some [\<lparr>categoryValues = cats\<rparr>],
                                                   valueColumns = Some [\<lparr>measureValues = ms\<rparr>]\<rparr>,
                          metadataObjects = []\<rparr>],
      viewport = \<lparr>width = 500, height = 400\<rparr>\<rparr>"

section \<open>Properties\<close>

subsection \<open>Arithmetic of the built-ins\<close>

lemma floor_rat_numeral_divide [simp]:
  "\<lfloor>numeral a / numeral b :: rat\<rfloor> = numeral a div numeral b"
  by (metis floor_divide_of_int_eq of_int_numeral)

lemma floor_rat_neg_numeral_divide [simp]:
  "\<lfloor>- (numeral a / numeral b) :: rat\<rfloor> = - numeral a div numeral b"
  by (metis divide_minus_left floor_divide_of_int_eq of_int_neg_numeral of_int_numeral)

lemma Math_round_nearest: "\<bar>of_int (Math_round s) - s\<bar> \<le> \<bar>of_int k - s\<bar>"
proof -
  let ?m = "Math_round s"
  have lo: "of_int ?m \<le> s + 1 / 2" and hi: "s + 1 / 2 < of_int ?m + 1"
    unfolding Math_round_def by linarith+
  show ?thesis
  proof (cases "k \<le> ?m")
    case True
    show ?thesis
    proof (cases "k = ?m")
      case True then show ?thesis by simp
    next
      case False
      with \<open>k \<le> ?m\<close> have "k \<le> ?m - 1" by simp
      then have "(of_int k :: rat) \<le> of_int (?m - 1)" by (simp only: of_int_le_iff)
      then have "(of_int k :: rat) \<le> of_int ?m - 1" by simp
      with lo hi show ?thesis by linarith
    qed
  next
    case False
    then have "?m + 1 \<le> k" by simp
    then have "(of_int (?m + 1) :: rat) \<le> of_int k" by (simp only: of_int_le_iff)
    then have "(of_int ?m :: rat) + 1 \<le> of_int k" by simp
    with lo hi show ?thesis by linarith
  qed
qed





subsection \<open>Comparison indices\<close>

text \<open>
  C2 (as amended): for a data point list of length \<open>N \<ge> 1\<close> and any configured 1-based
  index setting (negative, zero, fractional or beyond the length), the effective
  zero-based index is the setting rounded to the nearest integer, minus 1, clamped into
  \<open>[0, N - 1]\<close>, and so an integer within \<open>[0, N - 1]\<close>; for the empty list the
  effective index is 0.
\<close>

theorem selectedIndex_clamped:
  "selectedIndex n s = max 0 (min (int n - 1) (Math_round s - 1))
   \<and> (\<forall>k. \<bar>of_int (Math_round s) - s\<bar> \<le> \<bar>of_int k - s\<bar>)
   \<and> (0 < n \<longrightarrow> 0 \<le> selectedIndex n s \<and> selectedIndex n s \<le> int n - 1)
   \<and> (n = 0 \<longrightarrow> selectedIndex n s = 0)"
  by (auto simp: selectedIndex_def rawIndex_def Math_round_nearest)

theorem selectedIndex_clamped_witness:
  "(0::nat) < 3 \<and> selectedIndex 3 (7 / 2) = 2 \<and> selectedIndex 3 (- 4) = 0
   \<and> selectedIndex 3 0 = 0 \<and> selectedIndex 3 9 = 2
   \<and> 0 \<le> selectedIndex 3 (7 / 2) \<and> selectedIndex 3 (7 / 2) \<le> int 3 - 1
   \<and> selectedIndex 0 2 = 0"
  using selectedIndex_clamped [of 3 "7 / 2"] selectedIndex_clamped [of 0 2]
  by (simp add: selectedIndex_def rawIndex_def Math_round_def)

text \<open>
  C2 as stated fails on the empty data point list: the index is 0, which is not within
  \<open>[0, N - 1] = [0, -1]\<close>.
\<close>

theorem selectedIndex_empty_counterexample:
  "\<not> (0 \<le> selectedIndex (length ([] :: BarDataPoint list)) 1
      \<and> selectedIndex (length ([] :: BarDataPoint list)) 1 \<le> int (length ([] :: BarDataPoint list)) - 1)"
  by (simp add: selectedIndex_def rawIndex_def Math_round_def)

subsection \<open>The vertical domain\<close>







subsection \<open>The variance label\<close>












subsection \<open>What a render leaves in the chart group\<close>

lemma selectAllCount_Nil [simp]: "selectAllCount cls [] = 0"
  by (simp add: selectAllCount_def)

lemma selectAllCount_Cons [simp]:
  "selectAllCount cls (e # es) = matching cls e + selectAllCount cls es"
  by (simp add: selectAllCount_def)

lemma selectAllCount_append [simp]:
  "selectAllCount cls (es @ fs) = selectAllCount cls es + selectAllCount cls fs"
  by (simp add: selectAllCount_def)

lemma selectAllCount_none:
  assumes "\<forall>e \<in> set es. matching cls e = 0"
  shows "selectAllCount cls es = 0"
  using assms by (induction es) simp_all

lemma enter_none: "\<forall>e \<in> set es. matching cls e = 0 \<Longrightarrow> enter cls es ds = ds"
  by (simp add: enter_def selectAllCount_none)

lemma matching_barOf:
  "matching cls (barOf rt xs bw ys sf ss sh sc dc d) = (if cls = ''bar'' then 1 else 0)"
  by (auto simp: barOf_def)

lemma matching_barLabelOf:
  "matching cls (barLabelOf rt xs bw ys sz d) = (if cls = ''bar-label'' then 1 else 0)"
  by (auto simp: barLabelOf_def)

lemma renderVarianceBubble_append:
  "renderVarianceBubble rt dps i j xs bw ys bs chart
     = chart @ renderVarianceBubble rt dps i j xs bw ys bs []"
  by (simp add: renderVarianceBubble_def Let_def split: option.splits)

lemma enter_bar: "enter ''bar'' [XAxis a, YAxis] ds = ds"
  by (rule enter_none) simp

lemma enter_bar_label:
  "enter ''bar-label'' (XAxis a # YAxis # map (barOf rt xs bw ys sf ss sh sc dc) dps) ds = ds"
  by (rule enter_none) (auto simp: matching_barOf)

lemma renderChart_eq:
  "renderChart rt options dataPoints this =
     (if width (viewport options) - marginLeft - marginRight \<le> 0
         \<or> height (viewport options) - marginTop - marginBottom \<le> 0
      then Inr (clearChart this)
      else case formattingSettings this of
             None \<Rightarrow> Inl TypeError
           | Some settings \<Rightarrow>
               Inr (this\<lparr>svgWidth := Some (width (viewport options)),
                         svgHeight := Some (height (viewport options)),
                         chartTransform := Some (marginLeft, marginTop),
                         chartGroup := drawn rt options settings dataPoints\<rparr>))"
proof -
  have rv: "renderVarianceBubble rt dps i j xs bw ys bs (e # es)
     = (e # es) @ renderVarianceBubble rt dps i j xs bw ys bs []" for dps i j xs bw ys bs e es
    by (rule renderVarianceBubble_append)
  show ?thesis
    unfolding renderChart_def drawn_def Let_def
    by (simp add: enter_bar enter_bar_label rv split: option.splits)
qed

lemma selectAllCount_bars:
  "selectAllCount cls (map (barOf rt xs bw ys sf ss sh sc dc) dps)
     = (if cls = ''bar'' then length dps else 0)"
  by (induction dps) (simp_all add: matching_barOf)

lemma selectAllCount_labels:
  "selectAllCount cls (map (barLabelOf rt xs bw ys sz) dps)
     = (if cls = ''bar-label'' then length dps else 0)"
  by (induction dps) (simp_all add: matching_barLabelOf)

lemma renderVarianceBubble_skip:
  assumes "(\<exists>firstBar. at_index dps i = Some firstBar \<and> val firstBar = 0)
           \<or> at_index dps i = None \<or> at_index dps j = None"
  shows "renderVarianceBubble rt dps i j xs bw ys bs chart = chart"
proof -
  from assms consider
      (zero) firstBar where "at_index dps i = Some firstBar" "val firstBar = 0"
    | (no_first) "at_index dps i = None"
    | (no_second) "at_index dps j = None"
    by (elim disjE exE conjE)
  then show ?thesis
  proof cases
    case zero
    then show ?thesis
      by (cases "at_index dps j") (simp_all add: renderVarianceBubble_def)
  next
    case no_first
    then show ?thesis by (simp add: renderVarianceBubble_def)
  next
    case no_second
    then show ?thesis
      by (cases "at_index dps i") (simp_all add: renderVarianceBubble_def)
  qed
qed

lemma filter_bars:
  "filter (\<lambda>e. elementClass e = ''bar'') (map (barOf rt xs bw ys sf ss sh sc dc) dps)
     = map (barOf rt xs bw ys sf ss sh sc dc) dps"
  by (induction dps) (simp_all add: barOf_def)

lemma filter_labels:
  "filter (\<lambda>e. elementClass e = ''bar'') (map (barLabelOf rt xs bw ys sz) dps) = []"
  by (induction dps) (simp_all add: barLabelOf_def)

lemma filter_bubble:
  "filter (\<lambda>e. elementClass e = ''bar'') (renderVarianceBubble rt dps i j xs bw ys bs []) = []"
  by (simp add: renderVarianceBubble_def Let_def split: option.splits)

lemma bars_drawn:
  "filter (\<lambda>e. elementClass e = ''bar'') (drawn rt options settings dataPoints) =
     (let innerWidth = width (viewport options) - marginLeft - marginRight;
          innerHeight = height (viewport options) - marginTop - marginBottom;
          barSettings = barSettingsCard settings;
          bubbleSettings = varianceBubbleCard settings;
          dom = map category dataPoints
      in map (barOf rt (scaleBand rt dom innerWidth) (bandwidth rt dom innerWidth)
                (scaleLinearNice rt (yMin dataPoints) (yMax dataPoints) innerHeight)
                (selectedIndex (length dataPoints) (firstBarIndex bubbleSettings))
                (selectedIndex (length dataPoints) (secondBarIndex bubbleSettings))
                (showBubble bubbleSettings)
                (or_default (selectedBarColor barSettings) ''#ED7D31'')
                (or_default (barColor barSettings) ''#4472C4'')) dataPoints)"
  unfolding drawn_def Let_def
  by (simp add: filter_bars filter_labels filter_bubble)

lemma no_bubble_drawn:
  assumes "cls \<in> {''variance-bubble-group'', ''variance-connector'', ''variance-bubble'',
                  ''variance-label''}"
    and "\<not> showBubble (varianceBubbleCard settings)
       \<or> selectedIndex (length dataPoints) (firstBarIndex (varianceBubbleCard settings))
          = selectedIndex (length dataPoints) (secondBarIndex (varianceBubbleCard settings))
       \<or> (\<exists>firstBar. at_index dataPoints
             (selectedIndex (length dataPoints) (firstBarIndex (varianceBubbleCard settings)))
               = Some firstBar \<and> val firstBar = 0)
       \<or> at_index dataPoints
             (selectedIndex (length dataPoints) (firstBarIndex (varianceBubbleCard settings))) = None
       \<or> at_index dataPoints
             (selectedIndex (length dataPoints) (secondBarIndex (varianceBubbleCard settings))) = None"
  shows "selectAllCount cls (drawn rt options settings dataPoints) = 0"
proof -
  let ?sF = "selectedIndex (length dataPoints) (firstBarIndex (varianceBubbleCard settings))"
  let ?sS = "selectedIndex (length dataPoints) (secondBarIndex (varianceBubbleCard settings))"
  have c: "cls \<noteq> ''bar''" "cls \<noteq> ''bar-label''" "cls \<noteq> ''x-axis''" "cls \<noteq> ''y-axis''"
    using assms(1) by auto
  have skip: "renderVarianceBubble rt dataPoints ?sF ?sS xs bw ys (varianceBubbleCard settings) [] = []"
    if "showBubble (varianceBubbleCard settings)" and "?sF \<noteq> ?sS" for xs bw ys
  proof -
    from assms(2) that
    have "(\<exists>firstBar. at_index dataPoints ?sF = Some firstBar \<and> val firstBar = 0)
          \<or> at_index dataPoints ?sF = None \<or> at_index dataPoints ?sS = None"
      by simp
    then show ?thesis by (rule renderVarianceBubble_skip)
  qed
  show ?thesis
    unfolding drawn_def Let_def
    by (simp add: selectAllCount_bars selectAllCount_labels c c [symmetric] skip)
qed

lemma margins: "marginLeft = 60" "marginRight = 30" "marginTop = 40" "marginBottom = 60"
  by (simp_all add: marginLeft_def marginRight_def marginTop_def marginBottom_def)

lemma sampleOptions_viewport:
  "width (viewport (sampleOptions cats ms)) = 500" "height (viewport (sampleOptions cats ms)) = 400"
  by (simp_all add: sampleOptions_def)

lemma renderChart_sample:
  "renderChart rt (sampleOptions cats ms) dps (constructor\<lparr>formattingSettings := Some settings\<rparr>)
     = Inr (constructor\<lparr>formattingSettings := Some settings,
                         svgWidth := Some 500, svgHeight := Some 400,
                         chartTransform := Some (marginLeft, marginTop),
                         chartGroup := drawn rt (sampleOptions cats ms) settings dps\<rparr>)"
  by (simp add: renderChart_eq sampleOptions_viewport margins)

lemma default_indices:
  "firstBarIndex (varianceBubbleCard defaultSettings) = 1"
  "secondBarIndex (varianceBubbleCard defaultSettings) = 2"
  "showBubble (varianceBubbleCard defaultSettings)"
  by (simp_all add: defaultSettings_def defaultVarianceBubbleCard_def)

lemma selectedIndex_numeral:
  "selectedIndex n 1 = 0" "selectedIndex (Suc 0) 2 = 0" "selectedIndex (Suc (Suc n)) 2 = 1"
  by (simp_all add: selectedIndex_def rawIndex_def Math_round_def)

lemma decimal_small: "decimal 0 = ''0''" "decimal 5 = ''5''"
  by (simp_all add: decimal.simps digit_def)

subsection \<open>When no bubble is drawn\<close>

text \<open>
  C5: when the two clamped comparison indices are equal, \<open>renderChart\<close> leaves no
  variance-bubble element (group, circle, label, connector line) in the chart, whether
  the bubble toggle is on or off.
\<close>

theorem equal_indices_no_bubble:
  assumes "renderChart rt options dataPoints this = Inr this'"
    and "formattingSettings this = Some settings"
    and "selectedIndex (length dataPoints) (firstBarIndex (varianceBubbleCard settings))
         = selectedIndex (length dataPoints) (secondBarIndex (varianceBubbleCard settings))"
  shows "selectAllCount ''variance-bubble-group'' (chartGroup this') = 0
       \<and> selectAllCount ''variance-bubble'' (chartGroup this') = 0
       \<and> selectAllCount ''variance-label'' (chartGroup this') = 0
       \<and> selectAllCount ''variance-connector'' (chartGroup this') = 0"
proof (cases "width (viewport options) - marginLeft - marginRight \<le> 0
              \<or> height (viewport options) - marginTop - marginBottom \<le> 0")
  case True
  with assms(1) have "chartGroup this' = []"
    by (auto simp: renderChart_eq clearChart_def)
  then show ?thesis by simp
next
  case False
  with assms(1,2) have "chartGroup this' = drawn rt options settings dataPoints"
    by (auto simp: renderChart_eq)
  then show ?thesis using assms(3) by (simp add: no_bubble_drawn)
qed

theorem equal_indices_no_bubble_witness:
  "\<exists>this'. renderChart sampleRuntime (sampleOptions [] []) [samplePoint ''A'' 5 0]
              (constructor\<lparr>formattingSettings := Some defaultSettings\<rparr>) = Inr this'
     \<and> selectAllCount ''variance-bubble-group'' (chartGroup this') = 0
     \<and> selectAllCount ''variance-bubble'' (chartGroup this') = 0
     \<and> selectAllCount ''variance-label'' (chartGroup this') = 0
     \<and> selectAllCount ''variance-connector'' (chartGroup this') = 0"
proof -
  obtain this' where r: "renderChart sampleRuntime (sampleOptions [] []) [samplePoint ''A'' 5 0]
              (constructor\<lparr>formattingSettings := Some defaultSettings\<rparr>) = Inr this'"
    by (simp add: renderChart_sample)
  have s: "formattingSettings (constructor\<lparr>formattingSettings := Some defaultSettings\<rparr>)
             = Some defaultSettings"
    by simp
  have e: "selectedIndex (length [samplePoint ''A'' 5 0]) (firstBarIndex (varianceBubbleCard defaultSettings))
         = selectedIndex (length [samplePoint ''A'' 5 0]) (secondBarIndex (varianceBubbleCard defaultSettings))"
    by (simp add: default_indices selectedIndex_numeral)
  from equal_indices_no_bubble [OF r s e] r show ?thesis by (intro exI [of _ this']) simp
qed

text \<open>
  C6: when the first compared bar's value is exactly 0, or one of the two referenced
  bars does not exist, \<open>renderVarianceBubble\<close> adds nothing to the chart,
  \<open>renderChart\<close> returns normally, no variance-bubble element is drawn, and (in a
  viewport that leaves room for the chart) the bars are the ones drawn for every data
  point as usual.
\<close>

theorem zero_first_value_no_bubble:
  assumes "formattingSettings this = Some settings"
    and "selectedFirst = selectedIndex (length dataPoints) (firstBarIndex (varianceBubbleCard settings))"
    and "selectedSecond = selectedIndex (length dataPoints) (secondBarIndex (varianceBubbleCard settings))"
    and "(\<exists>firstBar. at_index dataPoints selectedFirst = Some firstBar \<and> val firstBar = 0)
         \<or> at_index dataPoints selectedFirst = None \<or> at_index dataPoints selectedSecond = None"
  shows "renderVarianceBubble rt dataPoints selectedFirst selectedSecond xScale bw yScale
           bubbleSettings chart = chart
       \<and> (\<exists>this'. renderChart rt options dataPoints this = Inr this'
       \<and> selectAllCount ''variance-bubble-group'' (chartGroup this') = 0
       \<and> selectAllCount ''variance-bubble'' (chartGroup this') = 0
       \<and> selectAllCount ''variance-label'' (chartGroup this') = 0
       \<and> selectAllCount ''variance-connector'' (chartGroup this') = 0
       \<and> (0 < width (viewport options) - marginLeft - marginRight
            \<and> 0 < height (viewport options) - marginTop - marginBottom \<longrightarrow>
          filter (\<lambda>e. elementClass e = ''bar'') (chartGroup this') =
            (let innerWidth = width (viewport options) - marginLeft - marginRight;
                 innerHeight = height (viewport options) - marginTop - marginBottom;
                 barSettings = barSettingsCard settings;
                 dom = map category dataPoints
             in map (barOf rt (scaleBand rt dom innerWidth) (bandwidth rt dom innerWidth)
                       (scaleLinearNice rt (yMin dataPoints) (yMax dataPoints) innerHeight)
                       selectedFirst selectedSecond
                       (showBubble (varianceBubbleCard settings))
                       (or_default (selectedBarColor barSettings) ''#ED7D31'')
                       (or_default (barColor barSettings) ''#4472C4'')) dataPoints)))"
    (is "?skip \<and> ?render")
proof (rule conjI)
  show ?skip using assms(4) by (rule renderVarianceBubble_skip)
next
  show ?render
  proof (cases "width (viewport options) - marginLeft - marginRight \<le> 0
              \<or> height (viewport options) - marginTop - marginBottom \<le> 0")
  case True
  then have "renderChart rt options dataPoints this = Inr (clearChart this)"
    by (simp add: renderChart_eq)
  moreover have "chartGroup (clearChart this) = []" by (simp add: clearChart_def)
  ultimately show ?thesis using True by (intro exI [of _ "clearChart this"]) auto
next
  case False
  let ?this' = "this\<lparr>svgWidth := Some (width (viewport options)),
                       svgHeight := Some (height (viewport options)),
                       chartTransform := Some (marginLeft, marginTop),
                       chartGroup := drawn rt options settings dataPoints\<rparr>"
  have r: "renderChart rt options dataPoints this = Inr ?this'"
    using False assms(1) by (simp add: renderChart_eq)
  have g: "chartGroup ?this' = drawn rt options settings dataPoints" by simp
  have n: "selectAllCount cls (drawn rt options settings dataPoints) = 0"
    if "cls \<in> {''variance-bubble-group'', ''variance-connector'', ''variance-bubble'',
                  ''variance-label''}" for cls
    using that assms(4) unfolding assms(2,3) by (intro no_bubble_drawn) simp_all
  have b: "filter (\<lambda>e. elementClass e = ''bar'') (drawn rt options settings dataPoints) =
            (let innerWidth = width (viewport options) - marginLeft - marginRight;
                 innerHeight = height (viewport options) - marginTop - marginBottom;
                 barSettings = barSettingsCard settings;
                 dom = map category dataPoints
             in map (barOf rt (scaleBand rt dom innerWidth) (bandwidth rt dom innerWidth)
                       (scaleLinearNice rt (yMin dataPoints) (yMax dataPoints) innerHeight)
                       selectedFirst selectedSecond
                       (showBubble (varianceBubbleCard settings))
                       (or_default (selectedBarColor barSettings) ''#ED7D31'')
                       (or_default (barColor barSettings) ''#4472C4'')) dataPoints)"
    unfolding assms(2,3) by (simp add: bars_drawn Let_def)
  have "renderChart rt options dataPoints this = Inr ?this'
       \<and> selectAllCount ''variance-bubble-group'' (chartGroup ?this') = 0
       \<and> selectAllCount ''variance-bubble'' (chartGroup ?this') = 0
       \<and> selectAllCount ''variance-label'' (chartGroup ?this') = 0
       \<and> selectAllCount ''variance-connector'' (chartGroup ?this') = 0
       \<and> (0 < width (viewport options) - marginLeft - marginRight
            \<and> 0 < height (viewport options) - marginTop - marginBottom \<longrightarrow>
          filter (\<lambda>e. elementClass e = ''bar'') (chartGroup ?this') =
            (let innerWidth = width (viewport options) - marginLeft - marginRight;
                 innerHeight = height (viewport options) - marginTop - marginBottom;
                 barSettings = barSettingsCard settings;
                 dom = map category dataPoints
             in map (barOf rt (scaleBand rt dom innerWidth) (bandwidth rt dom innerWidth)
                       (scaleLinearNice rt (yMin dataPoints) (yMax dataPoints) innerHeight)
                       selectedFirst selectedSecond
                       (showBubble (varianceBubbleCard settings))
                       (or_default (selectedBarColor barSettings) ''#ED7D31'')
                       (or_default (barColor barSettings) ''#4472C4'')) dataPoints))"
    unfolding g using r b by (simp add: n)
  then show ?thesis by (rule exI [of _ ?this'])
  qed
qed

theorem zero_first_value_no_bubble_witness:
  "\<exists>this'. renderChart sampleRuntime (sampleOptions [] [])
              [samplePoint ''A'' 0 0, samplePoint ''B'' 5 1]
              (constructor\<lparr>formattingSettings := Some defaultSettings\<rparr>) = Inr this'
     \<and> selectAllCount ''variance-bubble-group'' (chartGroup this') = 0
     \<and> selectAllCount ''variance-bubble'' (chartGroup this') = 0
     \<and> selectAllCount ''variance-label'' (chartGroup this') = 0
     \<and> selectAllCount ''variance-connector'' (chartGroup this') = 0
     \<and> filter (\<lambda>e. elementClass e = ''bar'') (chartGroup this')
         = [Bar 0 410 300 0 ''#ED7D31'' ''A: 0'', Bar 0 410 295 5 ''#ED7D31'' ''B: 5'']"
proof -
  have s: "formattingSettings (constructor\<lparr>formattingSettings := Some defaultSettings\<rparr>)
             = Some defaultSettings"
    by simp
  have i1: "0 = selectedIndex (length [samplePoint ''A'' 0 0, samplePoint ''B'' 5 1])
                  (firstBarIndex (varianceBubbleCard defaultSettings))"
    and i2: "1 = selectedIndex (length [samplePoint ''A'' 0 0, samplePoint ''B'' 5 1])
                  (secondBarIndex (varianceBubbleCard defaultSettings))"
    by (simp_all add: default_indices selectedIndex_numeral)
  have z: "(\<exists>firstBar. at_index [samplePoint ''A'' 0 0, samplePoint ''B'' 5 1] 0 = Some firstBar
              \<and> val firstBar = 0)
           \<or> at_index [samplePoint ''A'' 0 0, samplePoint ''B'' 5 1] 0 = None
           \<or> at_index [samplePoint ''A'' 0 0, samplePoint ''B'' 5 1] 1 = None"
    by (simp add: at_index_def samplePoint_def)
  have c: "or_default (selectedBarColor (barSettingsCard defaultSettings)) ''#ED7D31'' = ''#ED7D31''"
          "or_default (barColor (barSettingsCard defaultSettings)) ''#4472C4'' = ''#4472C4''"
    by (simp_all add: or_default_def defaultSettings_def defaultBarSettingsCard_def)
  from zero_first_value_no_bubble [OF s i1 i2 z, where rt = sampleRuntime
         and options = "sampleOptions [] []", THEN conjunct2]
  show ?thesis
    by (simp add: sampleOptions_viewport margins Let_def c default_indices decimal_small
          barOf_def barFill_def sampleRuntime_def samplePoint_def nullish_def)
qed

subsection \<open>Bar fill\<close>

lemma fill_barOf:
  "fill (barOf rt xs bw ys sf ss sh sc dc d) = barFill sf ss sh sc dc d"
  by (simp add: barOf_def)

text \<open>
  C4: in a complete render, the bar of every data point is filled with the selected
  colour when the point's index equals one of the two clamped comparison indices and the
  variance-bubble toggle is on, and with the default bar colour otherwise (so every bar
  has the default colour when the toggle is off). When the two colours differ, a bar has
  the selected colour if and only if its point is one of the two compared ones and the
  toggle is on.
\<close>

theorem bar_fill:
  assumes "renderChart rt options dataPoints this = Inr this'"
    and "formattingSettings this = Some settings"
    and "0 < width (viewport options) - marginLeft - marginRight"
    and "0 < height (viewport options) - marginTop - marginBottom"
    and "selectedFirst = selectedIndex (length dataPoints) (firstBarIndex (varianceBubbleCard settings))"
    and "selectedSecond = selectedIndex (length dataPoints) (secondBarIndex (varianceBubbleCard settings))"
    and "selectedColor = or_default (selectedBarColor (barSettingsCard settings)) ''#ED7D31''"
    and "defaultBarColor = or_default (barColor (barSettingsCard settings)) ''#4472C4''"
    and "bars = filter (\<lambda>e. elementClass e = ''bar'') (chartGroup this')"
  shows "map fill bars =
           map (\<lambda>d. if (int (index d) = selectedFirst \<or> int (index d) = selectedSecond)
                          \<and> showBubble (varianceBubbleCard settings)
                       then selectedColor else defaultBarColor) dataPoints
       \<and> (selectedColor \<noteq> defaultBarColor \<longrightarrow>
            (\<forall>i < length dataPoints.
               (fill (bars ! i) = selectedColor) =
               ((int (index (dataPoints ! i)) = selectedFirst
                  \<or> int (index (dataPoints ! i)) = selectedSecond)
                \<and> showBubble (varianceBubbleCard settings))))"
proof -
  have g: "chartGroup this' = drawn rt options settings dataPoints"
    using assms(1-4) by (auto simp: renderChart_eq)
  have b: "bars = map (barOf rt
                (scaleBand rt (map category dataPoints) (width (viewport options) - marginLeft - marginRight))
                (bandwidth rt (map category dataPoints) (width (viewport options) - marginLeft - marginRight))
                (scaleLinearNice rt (yMin dataPoints) (yMax dataPoints)
                   (height (viewport options) - marginTop - marginBottom))
                selectedFirst selectedSecond (showBubble (varianceBubbleCard settings))
                selectedColor defaultBarColor) dataPoints"
    unfolding assms(5-9) g by (simp add: bars_drawn Let_def)
  have m: "map fill bars =
           map (barFill selectedFirst selectedSecond (showBubble (varianceBubbleCard settings))
                  selectedColor defaultBarColor) dataPoints"
    unfolding b by (simp add: fill_barOf comp_def)
  have one: "map fill bars =
           map (\<lambda>d. if (int (index d) = selectedFirst \<or> int (index d) = selectedSecond)
                          \<and> showBubble (varianceBubbleCard settings)
                       then selectedColor else defaultBarColor) dataPoints"
    unfolding m by (simp add: barFill_def)
  have two: "(fill (bars ! i) = selectedColor) =
               ((int (index (dataPoints ! i)) = selectedFirst
                  \<or> int (index (dataPoints ! i)) = selectedSecond)
                \<and> showBubble (varianceBubbleCard settings))"
    if "selectedColor \<noteq> defaultBarColor" and "i < length dataPoints" for i
  proof -
    have "fill (bars ! i) = barFill selectedFirst selectedSecond
            (showBubble (varianceBubbleCard settings)) selectedColor defaultBarColor (dataPoints ! i)"
      unfolding b using that(2) by (simp add: fill_barOf)
    then show ?thesis using that(1) by (auto simp: barFill_def)
  qed
  from one two show ?thesis by simp
qed

theorem bar_fill_witness:
  "\<exists>this'. renderChart sampleRuntime (sampleOptions [] [])
              [samplePoint ''A'' 3 0, samplePoint ''B'' 5 1, samplePoint ''C'' 4 2]
              (constructor\<lparr>formattingSettings := Some defaultSettings\<rparr>) = Inr this'
     \<and> map fill (filter (\<lambda>e. elementClass e = ''bar'') (chartGroup this'))
         = [''#ED7D31'', ''#ED7D31'', ''#4472C4'']"
proof -
  let ?dps = "[samplePoint ''A'' 3 0, samplePoint ''B'' 5 1, samplePoint ''C'' 4 2]"
  obtain this' where r: "renderChart sampleRuntime (sampleOptions [] []) ?dps
              (constructor\<lparr>formattingSettings := Some defaultSettings\<rparr>) = Inr this'"
    by (simp add: renderChart_sample)
  have s: "formattingSettings (constructor\<lparr>formattingSettings := Some defaultSettings\<rparr>)
             = Some defaultSettings"
    by simp
  have w: "0 < width (viewport (sampleOptions [] [])) - marginLeft - marginRight"
    and h: "0 < height (viewport (sampleOptions [] [])) - marginTop - marginBottom"
    by (simp_all add: sampleOptions_viewport margins)
  have i1: "0 = selectedIndex (length ?dps) (firstBarIndex (varianceBubbleCard defaultSettings))"
    and i2: "1 = selectedIndex (length ?dps) (secondBarIndex (varianceBubbleCard defaultSettings))"
    by (simp_all add: default_indices selectedIndex_numeral)
  have c1: "''#ED7D31'' = or_default (selectedBarColor (barSettingsCard defaultSettings)) ''#ED7D31''"
    and c2: "''#4472C4'' = or_default (barColor (barSettingsCard defaultSettings)) ''#4472C4''"
    by (simp_all add: or_default_def defaultSettings_def defaultBarSettingsCard_def)
  from bar_fill [OF r s w h i1 i2 c1 c2 refl] r show ?thesis
    by (intro exI [of _ this']) (simp add: samplePoint_def default_indices)
qed

subsection \<open>Updates\<close>

text \<open>
  C8: when the result set is absent (no data view, or a data view without categorical
  data), or the category column or the value column is absent, \<open>update\<close> returns
  normally, the chart group is empty afterwards, and the size and transform of the
  drawing surface are left as they were.
\<close>

theorem update_clears_without_data:
  assumes "first_of (dataViews options) = None
         \<or> (\<exists>dataView. first_of (dataViews options) = Some dataView
              \<and> (categorical dataView = None
                 \<or> (\<exists>cat. categorical dataView = Some cat
                      \<and> (first_of (categories cat) = None \<or> first_of (valueColumns cat) = None))))"
  shows "\<exists>this'. update rt options this = Inr this'
       \<and> chartGroup this' = []
       \<and> svgWidth this' = svgWidth this \<and> svgHeight this' = svgHeight this
       \<and> chartTransform this' = chartTransform this"
proof -
  from assms consider
      (no_view) "first_of (dataViews options) = None"
    | (no_categorical) dataView where "first_of (dataViews options) = Some dataView"
        "categorical dataView = None"
    | (no_categories) dataView cat where "first_of (dataViews options) = Some dataView"
        "categorical dataView = Some cat" "first_of (categories cat) = None"
    | (no_values) dataView cat where "first_of (dataViews options) = Some dataView"
        "categorical dataView = Some cat" "first_of (valueColumns cat) = None"
    by (elim disjE exE conjE)
  then show ?thesis
  proof cases
    case no_view
    then show ?thesis by (simp add: update_def Let_def clearChart_def)
  next
    case no_categorical
    then show ?thesis by (simp add: update_def Let_def clearChart_def)
  next
    case no_categories
    then show ?thesis by (simp add: update_def Let_def clearChart_def)
  next
    case no_values
    then show ?thesis
      by (cases "first_of (categories cat)") (simp_all add: update_def Let_def clearChart_def)
  qed
qed

theorem update_clears_without_data_witness:
  "(\<exists>this'. update sampleRuntime \<lparr>dataViews = None, viewport = \<lparr>width = 500, height = 400\<rparr>\<rparr>
       (constructor\<lparr>chartGroup := [YAxis]\<rparr>) = Inr this' \<and> chartGroup this' = [])
   \<and> (\<exists>this'. update sampleRuntime
         \<lparr>dataViews = Some [\<lparr>categorical = Some \<lparr>categories = Some [\<lparr>categoryValues = [None]\<rparr>],
                                                    valueColumns = None\<rparr>,
                             metadataObjects = []\<rparr>],
          viewport = \<lparr>width = 500, height = 400\<rparr>\<rparr>
       (constructor\<lparr>chartGroup := [YAxis]\<rparr>) = Inr this' \<and> chartGroup this' = [])"
proof -
  let ?o1 = "\<lparr>dataViews = None, viewport = \<lparr>width = 500, height = 400\<rparr>\<rparr>"
  let ?dv = "\<lparr>categorical = Some \<lparr>categories = Some [\<lparr>categoryValues = [None]\<rparr>],
                                                    valueColumns = None\<rparr>,
                             metadataObjects = []\<rparr>"
  let ?o2 = "\<lparr>dataViews = Some [?dv], viewport = \<lparr>width = 500, height = 400\<rparr>\<rparr>"
  have a: "first_of (dataViews ?o1) = None
         \<or> (\<exists>dataView. first_of (dataViews ?o1) = Some dataView
              \<and> (categorical dataView = None
                 \<or> (\<exists>cat. categorical dataView = Some cat
                      \<and> (first_of (categories cat) = None \<or> first_of (valueColumns cat) = None))))"
    by (simp add: first_of_def)
  have b: "first_of (dataViews ?o2) = None
         \<or> (\<exists>dataView. first_of (dataViews ?o2) = Some dataView
              \<and> (categorical dataView = None
                 \<or> (\<exists>cat. categorical dataView = Some cat
                      \<and> (first_of (categories cat) = None \<or> first_of (valueColumns cat) = None))))"
    by (simp add: first_of_def)
  from update_clears_without_data [OF a, of sampleRuntime "constructor\<lparr>chartGroup := [YAxis]\<rparr>"]
       update_clears_without_data [OF b, of sampleRuntime "constructor\<lparr>chartGroup := [YAxis]\<rparr>"]
  show ?thesis by (elim exE conjE) (intro conjI exI, assumption+)
qed

lemma renderChart_settled:
  assumes "renderChart rt options dataPoints this = Inr this'"
  shows "renderChart rt options dataPoints this' = Inr this'"
    and "formattingSettings this' = formattingSettings this"
  using assms by (auto simp: renderChart_eq clearChart_def split: if_splits option.splits)

lemma renderChart_forgets:
  "renderChart rt options dataPoints (this\<lparr>chartGroup := es\<rparr>) = renderChart rt options dataPoints this"
  by (simp add: renderChart_eq clearChart_def split: option.splits)

lemma update_with_data:
  assumes "first_of (dataViews options) = Some dataView"
    and "categorical dataView = Some cat"
    and "first_of (categories cat) = Some cats"
    and "first_of (valueColumns cat) = Some vals"
    and "mapRows rt (measureValues vals) (categoryValues cats) 0 = Inr dataPoints"
  shows "update rt options this =
           renderChart rt options dataPoints
             (this\<lparr>formattingSettings := Some (populateFormattingSettingsModel rt dataView)\<rparr>)"
  using assms by (simp add: update_def Let_def)

text \<open>
  C9: an update followed by the same update gives the result of the single update, and
  the result of an update does not depend on what the chart group held before: every
  update clears and redraws, nothing accumulates.
\<close>

theorem update_idempotent:
  "(case update rt options this of Inl e \<Rightarrow> Inl e | Inr this' \<Rightarrow> update rt options this')
     = update rt options this
   \<and> update rt options (this\<lparr>chartGroup := es\<rparr>) = update rt options this"
proof -
  have rf: "renderChart rt options dps (this\<lparr>chartGroup := es, formattingSettings := s\<rparr>)
              = renderChart rt options dps (this\<lparr>formattingSettings := s\<rparr>)" for dps s
    by (simp add: renderChart_eq clearChart_def split: option.splits)
  have forgets: "update rt options (this\<lparr>chartGroup := es\<rparr>) = update rt options this"
    by (simp add: update_def Let_def clearChart_def rf Let_def split: option.splits sum.splits)
  have again: "update rt options this' = Inr this'" if "update rt options this = Inr this'" for this'
  proof (cases "first_of (dataViews options)")
    case None
    with that show ?thesis by (auto simp: update_def Let_def clearChart_def)
  next
    case (Some dataView)
    note dv = this
    show ?thesis
    proof (cases "categorical dataView")
      case None
      with that dv show ?thesis by (auto simp: update_def Let_def clearChart_def)
    next
      case (Some cat)
      note ct = this
      let ?this1 = "this\<lparr>formattingSettings := Some (populateFormattingSettingsModel rt dataView)\<rparr>"
      show ?thesis
      proof (cases "\<exists>cats vals. first_of (categories cat) = Some cats
                       \<and> first_of (valueColumns cat) = Some vals")
        case False
        then have "update rt options this = Inr (clearChart ?this1)"
          using dv ct by (auto simp: update_def Let_def split: option.splits)
        with that have t: "this' = clearChart ?this1" by simp
        show ?thesis unfolding t using dv ct False
          by (auto simp: update_def Let_def clearChart_def split: option.splits)
      next
        case True
        then obtain cats vals where cv: "first_of (categories cat) = Some cats"
            "first_of (valueColumns cat) = Some vals" by (elim exE conjE)
        show ?thesis
        proof (cases "mapRows rt (measureValues vals) (categoryValues cats) 0")
          case (Inl e)
          with that dv ct cv show ?thesis by (simp add: update_def Let_def)
        next
          case (Inr dataPoints)
          with that dv ct cv have r: "renderChart rt options dataPoints ?this1 = Inr this'"
            by (simp add: update_def Let_def)
          have f: "this'\<lparr>formattingSettings := Some (populateFormattingSettingsModel rt dataView)\<rparr> = this'"
            using renderChart_settled(2) [OF r] by simp
          show ?thesis using dv ct cv Inr renderChart_settled(1) [OF r]
            by (simp add: update_def Let_def f)
        qed
      qed
    qed
  qed
  have twice: "(case update rt options this of Inl e \<Rightarrow> Inl e | Inr this' \<Rightarrow> update rt options this')
     = update rt options this"
    by (cases "update rt options this") (simp_all add: again)
  from twice forgets show ?thesis by (rule conjI)
qed

theorem update_idempotent_witness:
  "\<exists>this'. update sampleRuntime (sampleOptions [Some (PString ''A''), None] [Some 3, None]) constructor
              = Inr this'
     \<and> update sampleRuntime (sampleOptions [Some (PString ''A''), None] [Some 3, None]) this'
              = Inr this'
     \<and> length (chartGroup this') = 7"
proof -
  let ?o = "sampleOptions [Some (PString ''A''), None] [Some 3, None]"
  let ?dv = "\<lparr>categorical = Some \<lparr>categories = Some [\<lparr>categoryValues = [Some (PString ''A''), None]\<rparr>],
                                     valueColumns = Some [\<lparr>measureValues = [Some 3, None]\<rparr>]\<rparr>,
            metadataObjects = []\<rparr>"
  let ?dps = "[samplePoint ''A'' 3 0, samplePoint [] 0 1]"
  have m: "mapRows sampleRuntime [Some 3, None] [Some (PString ''A''), None] 0 = Inr ?dps"
    by (simp add: dataPoint_def at_index_def samplePoint_def)
  have p: "populateFormattingSettingsModel sampleRuntime ?dv = defaultSettings"
    by (simp add: sampleRuntime_def)
  have u: "update sampleRuntime ?o constructor
             = renderChart sampleRuntime ?o ?dps (constructor\<lparr>formattingSettings := Some defaultSettings\<rparr>)"
    using update_with_data [where options = ?o and dataView = ?dv and rt = sampleRuntime
        and cats = "\<lparr>categoryValues = [Some (PString ''A''), None]\<rparr>"
        and vals = "\<lparr>measureValues = [Some 3, None]\<rparr>" and dataPoints = ?dps
        and this = constructor] m p
    by (simp add: sampleOptions_def first_of_def)
  obtain this' where r: "update sampleRuntime ?o constructor = Inr this'"
    and g: "chartGroup this' = drawn sampleRuntime ?o defaultSettings ?dps"
    unfolding u by (simp add: renderChart_sample)
  have l: "length (chartGroup this') = 7"
    unfolding g drawn_def Let_def
    by (simp add: defaultSettings_def defaultBarSettingsCard_def defaultVarianceBubbleCard_def
          selectedIndex_numeral renderVarianceBubble_def at_index_def samplePoint_def Let_def)
  from update_idempotent [of sampleRuntime ?o constructor] r l
  show ?thesis by (intro exI [of _ this']) simp
qed

subsection \<open>Data points\<close>

lemma dataPoint_Inr:
  assumes "dataPoint rt measureCol cat k = Inr d"
  shows "category d = (case cat of None \<Rightarrow> [] | Some v \<Rightarrow> if truthy v then toString rt v else [])"
    and "index d = k"
    and "k < length measureCol"
    and "val d = (case measureCol ! k of None \<Rightarrow> 0 | Some v \<Rightarrow> v)"
  using assms
  by (auto simp: dataPoint_def at_index_def Let_def split: if_splits option.splits)

lemma mapRows_rows:
  assumes "mapRows rt measureCol cats k = Inr dataPoints"
  shows "length dataPoints = length cats
       \<and> (\<forall>i < length cats.
            category (dataPoints ! i)
              = (case cats ! i of None \<Rightarrow> [] | Some v \<Rightarrow> if truthy v then toString rt v else [])
            \<and> index (dataPoints ! i) = k + i
            \<and> k + i < length measureCol
            \<and> val (dataPoints ! i) = (case measureCol ! (k + i) of None \<Rightarrow> 0 | Some v \<Rightarrow> v))"
  using assms
proof (induction cats arbitrary: k dataPoints)
  case Nil
  then show ?case by simp
next
  case (Cons cat cats)
  from Cons.prems obtain d ds where
    d: "dataPoint rt measureCol cat k = Inr d" and
    ds: "mapRows rt measureCol cats (Suc k) = Inr ds" and
    dps: "dataPoints = d # ds"
    by (auto split: sum.splits)
  note hd = dataPoint_Inr [OF d]
  note tl = Cons.IH [OF ds]
  show ?case
  proof (intro conjI allI impI)
    show "length dataPoints = length (cat # cats)" using tl dps by simp
  next
    fix i assume i: "i < length (cat # cats)"
    show "category (dataPoints ! i)
            = (case (cat # cats) ! i of None \<Rightarrow> [] | Some v \<Rightarrow> if truthy v then toString rt v else [])"
      using i tl hd(1) dps by (cases i) simp_all
    show "index (dataPoints ! i) = k + i"
      using i tl hd(2) dps by (cases i) simp_all
    show "k + i < length measureCol"
      using i tl hd(3) by (cases i) simp_all
    show "val (dataPoints ! i) = (case measureCol ! (k + i) of None \<Rightarrow> 0 | Some v \<Rightarrow> v)"
      using i tl hd(4) dps by (cases i) simp_all
  qed
qed

lemma mapRows_total:
  assumes "k + length cats \<le> length measureCol"
  shows "\<exists>dataPoints. mapRows rt measureCol cats k = Inr dataPoints"
  using assms
proof (induction cats arbitrary: k)
  case Nil
  then show ?case by simp
next
  case (Cons cat cats)
  then have "k < length measureCol" by simp
  then have "\<exists>d. dataPoint rt measureCol cat k = Inr d"
    by (cases "measureCol ! k") (simp_all add: dataPoint_def at_index_def Let_def)
  then obtain d where "dataPoint rt measureCol cat k = Inr d" ..
  moreover from Cons.prems have "Suc k + length cats \<le> length measureCol" by simp
  from Cons.IH [OF this] obtain ds where "mapRows rt measureCol cats (Suc k) = Inr ds" ..
  ultimately show ?case by simp
qed

text \<open>
  C10: a row whose category value is falsy but not \<open>null\<close> (the number 0, \<open>false\<close>,
  the empty string) gets the empty string as its category, not the string form of the
  value; a truthy category value gets its \<open>toString\<close>.
\<close>

theorem falsy_category_empty:
  assumes "mapRows rt measureCol cats 0 = Inr dataPoints"
    and "i < length cats"
    and "cats ! i = Some v"
  shows "(\<not> truthy v \<longrightarrow> category (dataPoints ! i) = [])
       \<and> (truthy v \<longrightarrow> category (dataPoints ! i) = toString rt v)
       \<and> \<not> truthy (PNumber 0) \<and> \<not> truthy (PBoolean False) \<and> \<not> truthy (PString [])"
  using mapRows_rows [OF assms(1)] assms(2,3) by simp

theorem falsy_category_empty_witness:
  "mapRows sampleRuntime [Some 1, Some 2, Some 3, Some 4]
     [Some (PNumber 0), Some (PBoolean False), Some (PString []), Some (PNumber 7)] 0
     = Inr [samplePoint [] 1 0, samplePoint [] 2 1, samplePoint [] 3 2, samplePoint ''7'' 4 3]
   \<and> category (samplePoint [] 1 0) = []
   \<and> category (samplePoint [] 2 1) = []
   \<and> category (samplePoint [] 3 2) = []
   \<and> category (samplePoint ''7'' 4 3) = toString sampleRuntime (PNumber 7)"
proof -
  let ?cats = "[Some (PNumber 0), Some (PBoolean False), Some (PString []), Some (PNumber 7)]"
  let ?dps = "[samplePoint [] 1 0, samplePoint [] 2 1, samplePoint [] 3 2, samplePoint ''7'' 4 3]"
  have d: "decimal 7 = ''7''" by (simp add: decimal.simps digit_def)
  have m: "mapRows sampleRuntime [Some 1, Some 2, Some 3, Some 4] ?cats 0 = Inr ?dps"
    by (simp add: dataPoint_def at_index_def samplePoint_def sampleRuntime_def d)
  from falsy_category_empty [OF m, of 0 "PNumber 0"]
       falsy_category_empty [OF m, of 1 "PBoolean False"]
       falsy_category_empty [OF m, of 2 "PString []"]
       falsy_category_empty [OF m, of 3 "PNumber 7"]
       m
  show ?thesis by simp
qed

text \<open>
  C3 at the category value 0: the data point's category is the empty string, while the
  string form of 0 is \<open>''0''\<close>.
\<close>

theorem zero_category_blank:
  "mapRows sampleRuntime [Some 5] [Some (PNumber 0)] 0 = Inr [\<lparr>category = [], val = 5, index = 0\<rparr>]
   \<and> toString sampleRuntime (PNumber 0) = ''0''"
  by (simp add: dataPoint_def at_index_def sampleRuntime_def decimal.simps digit_def)

end
